theory Spec2Isabelle
  imports Main "HOL-Library.AList"
begin

section \<open>Paths\<close>

text \<open>
  Paths are Go strings, modelled as \<open>string\<close>. The program runs on a Unix file system, so the
  separator is the slash and \<open>filepath.ToSlash\<close> is the identity. The functions of Go's
  \<open>strings\<close> and \<open>path/filepath\<close> packages that the program calls are modelled after their
  documented behaviour, on path components.
\<close>

type_synonym path = string

definition ToSlash :: "path \<Rightarrow> path" where
  "ToSlash p = p"

definition HasPrefix :: "string \<Rightarrow> string \<Rightarrow> bool" where
  "HasPrefix s p = (take (length p) s = p)"

definition HasSuffix :: "string \<Rightarrow> string \<Rightarrow> bool" where
  "HasSuffix s x = (length x \<le> length s \<and> drop (length s - length x) s = x)"

definition TrimPrefix :: "string \<Rightarrow> string \<Rightarrow> string" where
  "TrimPrefix s p = (if HasPrefix s p then drop (length p) s else s)"

text \<open>The components of a path: the pieces between slashes, empty pieces included.\<close>

fun splitSlash :: "path \<Rightarrow> string list" where
  "splitSlash [] = [[]]"
| "splitSlash (c # cs) =
     (if c = CHR ''/'' then [] # splitSlash cs
      else (case splitSlash cs of
              [] \<Rightarrow> [[c]]
            | w # ws \<Rightarrow> (c # w) # ws))"

fun joinSlash :: "string list \<Rightarrow> path" where
  "joinSlash [] = []"
| "joinSlash [c] = c"
| "joinSlash (c # cs) = c @ ''/'' @ joinSlash cs"

text \<open>
  \<open>filepath.Clean\<close>: empty and \<open>.\<close> components are dropped, a \<open>..\<close> component removes the
  component before it (at the root it is dropped, at the start of a relative path it is
  kept); the empty result is \<open>.\<close>. The second argument is the stack of components kept so
  far, last one first.
\<close>

fun cleanComps :: "bool \<Rightarrow> string list \<Rightarrow> string list \<Rightarrow> string list" where
  "cleanComps rooted acc [] = rev acc"
| "cleanComps rooted acc (c # cs) =
     (if c = [] \<or> c = ''.'' then cleanComps rooted acc cs
      else if c = ''..'' then
        (case acc of
           [] \<Rightarrow> if rooted then cleanComps rooted [] cs else cleanComps rooted [c] cs
         | a # acc' \<Rightarrow>
             if a = ''..'' then cleanComps rooted (c # acc) cs
             else cleanComps rooted acc' cs)
      else cleanComps rooted (c # acc) cs)"

definition Clean :: "path \<Rightarrow> path" where
  "Clean p =
     (let rooted = HasPrefix p ''/'';
          cs = cleanComps rooted [] (splitSlash p)
      in if rooted then ''/'' @ joinSlash cs
         else if cs = [] then ''.''
         else joinSlash cs)"

text \<open>\<open>filepath.Join\<close>: empty elements are ignored, the rest is joined and cleaned.\<close>

definition Join :: "path list \<Rightarrow> path" where
  "Join elems =
     (let es = filter (\<lambda>e. e \<noteq> []) elems
      in if es = [] then [] else Clean (joinSlash es))"

text \<open>\<open>filepath.Split\<close>: the path up to and including its last slash, and the rest.\<close>

definition Split :: "path \<Rightarrow> path \<times> string" where
  "Split p =
     (let file = rev (takeWhile (\<lambda>c. c \<noteq> CHR ''/'') (rev p))
      in (take (length p - length file) p, file))"

definition Dir :: "path \<Rightarrow> path" where
  "Dir p = Clean (fst (Split p))"

text \<open>
  \<open>filepath.Rel\<close>: both paths are cleaned and must both be rooted or both be relative; the
  common leading components are dropped, every component left of the base becomes \<open>..\<close>.
  A base that still starts with \<open>..\<close> cannot be resolved: the result is \<open>None\<close>, Go's error.
\<close>

fun dropCommon :: "string list \<Rightarrow> string list \<Rightarrow> string list \<times> string list" where
  "dropCommon (b # bs) (t # ts) = (if b = t then dropCommon bs ts else (b # bs, t # ts))"
| "dropCommon bs ts = (bs, ts)"

definition relComps :: "path \<Rightarrow> string list" where
  "relComps p = cleanComps (HasPrefix p ''/'') [] (splitSlash p)"

definition Rel :: "path \<Rightarrow> path \<Rightarrow> path option" where
  "Rel basepath targpath =
     (if Clean targpath = Clean basepath then Some ''.''
      else if HasPrefix basepath ''/'' \<noteq> HasPrefix targpath ''/'' then None
      else
        (case dropCommon (relComps basepath) (relComps targpath) of
           (bs, ts) \<Rightarrow>
             if bs \<noteq> [] \<and> hd bs = ''..'' then None
             else Some (joinSlash (map (\<lambda>_. ''..'') bs @ ts))))"

section \<open>The manifest\<close>

text \<open>
  \<open>project.LoomConfig\<close> and \<open>project.Thread\<close>. The Go map \<open>Files\<close> is an association list
  from directory key to the file names owned in that directory; a \<open>nil\<close> map and an empty
  map are both the empty list (the program reads them the same way, and the YAML encoder
  omits both). Go iterates a map in an unspecified order; the model iterates in list
  order, and every theorem holds for every list, hence for every order.
\<close>

type_synonym files_map = "(string \<times> string list) list"

record Thread =
  Name :: string
  Source :: string
  Files :: files_map

record LoomConfig =
  Version :: string
  Threads :: "Thread list"

text \<open>The body of the two inner loops of \<open>IsFileOwned\<close>: one directory key of one thread.\<close>

definition normalizedDirOfKey :: "string \<Rightarrow> string" where
  "normalizedDirOfKey dir =
     (if dir \<noteq> ''./'' \<and> \<not> HasSuffix dir ''/'' then dir @ ''/'' else dir)"

definition fullOwnedPath :: "string \<Rightarrow> string \<Rightarrow> path" where
  "fullOwnedPath normalizedDir ownedFile =
     (if normalizedDir = ''./'' then ownedFile
      else ToSlash (Join [normalizedDir, ownedFile]))"

definition dirOwns :: "path \<Rightarrow> string \<times> string list \<Rightarrow> bool" where
  "dirOwns relPath entry =
     (case entry of (dir, files) \<Rightarrow>
        list_ex (\<lambda>ownedFile. fullOwnedPath (normalizedDirOfKey dir) ownedFile = relPath) files)"

definition threadOwns :: "path \<Rightarrow> Thread \<Rightarrow> bool" where
  "threadOwns relPath thread = list_ex (dirOwns relPath) (Files thread)"

fun ownerAmong :: "path \<Rightarrow> Thread list \<Rightarrow> string \<times> bool" where
  "ownerAmong relPath [] = ([], False)"
| "ownerAmong relPath (thread # rest) =
     (if threadOwns relPath thread then (Name thread, True) else ownerAmong relPath rest)"

text \<open>
  \<open>IsFileOwned\<close>: the path is made relative to the project root; when that fails the file
  counts as not owned. The first thread, in manifest order, that lists the path owns it.
\<close>

definition IsFileOwned :: "LoomConfig \<Rightarrow> path \<Rightarrow> path \<Rightarrow> string \<times> bool" where
  "IsFileOwned lc filePath projectRoot =
     (case Rel projectRoot filePath of
        None \<Rightarrow> ([], False)
      | Some relPath \<Rightarrow> ownerAmong (ToSlash relPath) (Threads lc))"

section \<open>The world the commands run in\<close>

text \<open>
  The file system is a table from cleaned absolute paths to nodes. A node is a regular file
  with its bytes and mode, a directory, or an entry that \<open>os.Stat\<close> cannot read (any error
  other than "does not exist"). Symbolic links are not modelled. The program reaches every
  path through \<open>filepath.Join\<close>, so it only ever asks for cleaned paths.
\<close>

datatype node = File (content: string) (perm: nat) | Directory | Inaccessible

type_synonym filesystem = "(path \<times> node) list"

datatype stat_result = StatOK node | StatNotExist | StatFailed

definition Stat :: "filesystem \<Rightarrow> path \<Rightarrow> stat_result" where
  "Stat disk p =
     (case map_of disk p of
        None \<Rightarrow> StatNotExist
      | Some Inaccessible \<Rightarrow> StatFailed
      | Some n \<Rightarrow> StatOK n)"

definition ReadFile :: "filesystem \<Rightarrow> path \<Rightarrow> string option" where
  "ReadFile disk p = (case map_of disk p of Some (File data m) \<Rightarrow> Some data | _ \<Rightarrow> None)"

text \<open>
  \<open>os.WriteFile\<close> truncates an existing regular file and keeps its mode; it creates a missing
  file with the given mode when the parent directory exists; everything else is an error.
\<close>

definition WriteFile :: "filesystem \<Rightarrow> path \<Rightarrow> string \<Rightarrow> nat \<Rightarrow> filesystem option" where
  "WriteFile disk p data m =
     (case map_of disk p of
        Some (File old m0) \<Rightarrow> Some (AList.update p (File data m0) disk)
      | Some other \<Rightarrow> None
      | None \<Rightarrow>
          if map_of disk (Dir p) = Some Directory
          then Some (AList.update p (File data m) disk)
          else None)"

text \<open>The directories on the way to a path, outermost first, the path itself last.\<close>

fun pathChain :: "string list \<Rightarrow> string list \<Rightarrow> path list" where
  "pathChain pre [] = []"
| "pathChain pre (c # cs) =
     (let here = pre @ [c]
      in (if joinSlash here = [] then [] else [joinSlash here]) @ pathChain here cs)"

fun mkdirChain :: "filesystem \<Rightarrow> path list \<Rightarrow> filesystem option" where
  "mkdirChain disk [] = Some disk"
| "mkdirChain disk (d # ds) =
     (case map_of disk d of
        None \<Rightarrow> mkdirChain (AList.update d Directory disk) ds
      | Some Directory \<Rightarrow> mkdirChain disk ds
      | Some other \<Rightarrow> None)"

definition MkdirAll :: "filesystem \<Rightarrow> path \<Rightarrow> filesystem option" where
  "MkdirAll disk p = mkdirChain disk (pathChain [] (splitSlash p))"

text \<open>
  \<open>filepath.Walk\<close> reports the root and everything below it, or fails when the root or an
  entry below it cannot be read. \<open>os.ReadDir\<close> lists the entries directly inside a
  directory. Both list entries in the order of the table, which stands for Go's
  order by name.
\<close>

definition isBelow :: "path \<Rightarrow> path \<Rightarrow> bool" where
  "isBelow root p = (p = root \<or> HasPrefix p (root @ ''/''))"

definition Walk :: "filesystem \<Rightarrow> path \<Rightarrow> (path \<times> node) list option" where
  "Walk disk root =
     (let visited = filter (\<lambda>(p, n). isBelow root p) disk
      in if map_of disk root = None \<or> list_ex (\<lambda>(p, n). n = Inaccessible) visited
         then None
         else Some visited)"

definition ReadDir :: "filesystem \<Rightarrow> path \<Rightarrow> (string \<times> node) list option" where
  "ReadDir disk src =
     (if map_of disk src = Some Directory
      then Some (map (\<lambda>(p, n). (snd (Split p), n))
                  (filter (\<lambda>(p, n). fst (Split p) = src @ ''/'' \<and> snd (Split p) \<noteq> []) disk))
      else None)"

text \<open>What the commands print, one constructor for each message of the source.\<close>

datatype question =
    WantsToOverwrite string
  | TakeOwnershipAndOverwrite string path

datatype msg =
    Ask question
  | InvalidInput
  | CurrentlyOwnedBy path string
  | TakingOwnership string path
  | SkippingRetainsOwnership path string
  | SpecificallyWovenTakingOwnership string path
  | SkippingOwnedByOther path string string string
  | ExistsNotOwned path
  | SkippingRemainsUnmanaged path
  | SpecificallyWovenTakingUnowned path string
  | SkippingUnowned path string string
  | Reapplying path string
  | CreatingNewFile path string
  | SourceFileNotFound path string
  | ErrorStatingSourceFile path string
  | SourceIsDirectory path
  | WeavingSpecificThread string
  | ThreadOwnsNoFiles string
  | ThreadSourceDirNotFound string path
  | WeavingThreadFrom string path
  | FailedToCollectFiles string
  | WeaveCompleted
  | ThreadAdded string string

datatype error =
    ReadInputFailed path
  | StatDestinationFailed path
  | MkdirFailed path
  | ReadSourceFailed path
  | WriteFailed path
  | WalkFailed string path
  | RelFailed path path
  | ReadManifestFailed
  | ThreadNotInManifest string
  | WeavingThreadFailed string error
  | ThreadNameRequired
  | InvalidStoreThreadFormat string
  | StatProjectStoreFailed path
  | MalformedThread path string
  | AccessThreadFailed string string path
  | LoadGlobalConfigFailed
  | StoreNotConfigured string
  | ThreadNotInStore string string
  | ThreadNotFound string
  | ReadDirFailed path
  | FileInfoFailed path
  | CopyTooDeep path
  | ThreadPathEmpty string

text \<open>
  The state a command works on: the manifest in memory (what the \<open>*LoomConfig\<close> pointer
  points to), the file table, \<open>loom.yaml\<close> as the manifest it encodes (\<open>None\<close> when the file
  is missing; the YAML text itself is not modelled), the lines still to be read from
  standard input, already trimmed and in lower case, the messages printed so far, the
  stores of the global configuration (\<open>None\<close> when it cannot be loaded), and the paths of
  the \<open>os.WriteFile\<close> calls that succeeded so far, in order.
\<close>

record Store =
  StoreName :: string
  StoreType :: string
  StorePath :: path

record world =
  mem :: LoomConfig
  disk :: filesystem
  manifest :: "LoomConfig option"
  globalStores :: "Store list option"
  stdin :: "string list"
  stdout :: "msg list"
  writeLog :: "path list"

definition say :: "msg \<Rightarrow> world \<Rightarrow> world" where
  "say m w = w\<lparr>stdout := stdout w @ [m]\<rparr>"

section \<open>The weave command\<close>

definition normalizeDir :: "path \<Rightarrow> string" where
  "normalizeDir dirPath =
     (if dirPath = [] \<or> dirPath = ''.'' then ''./''
      else (let slashed = ToSlash dirPath
            in if \<not> HasSuffix slashed ''/'' then slashed @ ''/'' else slashed))"

text \<open>
  \<open>promptUserForOverwriteInWeave\<close> and \<open>promptUserForOverwrite\<close> (the same code twice): the
  question is printed and a line is read, until the line is an answer. The end of the
  input is the read error.
\<close>

fun readAnswer :: "question \<Rightarrow> string list \<Rightarrow> msg list \<Rightarrow> string option \<times> string list \<times> msg list" where
  "readAnswer q [] out = (None, [], out @ [Ask q])"
| "readAnswer q (input # rest) out =
     (if input = [] \<or> input = ''yes'' \<or> input = ''y'' then (Some ''yes'', rest, out @ [Ask q])
      else if input = ''no'' \<or> input = ''n'' then (Some ''no'', rest, out @ [Ask q])
      else if input = ''skip'' \<or> input = ''s'' then (Some ''skip'', rest, out @ [Ask q])
      else readAnswer q rest (out @ [Ask q, InvalidInput]))"

definition promptUserForOverwrite :: "question \<Rightarrow> world \<Rightarrow> string option \<times> world" where
  "promptUserForOverwrite q w =
     (case readAnswer q (stdin w) (stdout w) of
        (choice, rest, out) \<Rightarrow> (choice, w\<lparr>stdin := rest, stdout := out\<rparr>))"

text \<open>
  \<open>removeFileFromThreadManifest\<close>: the first thread with the owner's name loses the file
  under the normalized directory key; a key left without files is deleted.
\<close>

fun removeFromOwner :: "Thread list \<Rightarrow> string \<Rightarrow> string \<Rightarrow> string \<Rightarrow> Thread list" where
  "removeFromOwner [] ownerThreadName normalizedDir file = []"
| "removeFromOwner (t # ts) ownerThreadName normalizedDir file =
     (if Name t = ownerThreadName then
        (case map_of (Files t) normalizedDir of
           None \<Rightarrow> t # ts
         | Some filesInDir \<Rightarrow>
             (let updatedFilesInDir = filter (\<lambda>f. f \<noteq> file) filesInDir
              in if length updatedFilesInDir > 0
                 then t\<lparr>Files := AList.update normalizedDir updatedFilesInDir (Files t)\<rparr> # ts
                 else t\<lparr>Files := AList.delete normalizedDir (Files t)\<rparr> # ts))
      else t # removeFromOwner ts ownerThreadName normalizedDir file)"

definition removeFileFromThreadManifest :: "LoomConfig \<Rightarrow> string \<Rightarrow> path \<Rightarrow> LoomConfig" where
  "removeFileFromThreadManifest loomConfig ownerThreadName fileRelToProject =
     (case Split fileRelToProject of
        (dir, file) \<Rightarrow>
          loomConfig\<lparr>Threads :=
            removeFromOwner (Threads loomConfig) ownerThreadName (normalizeDir dir) file\<rparr>)"

record processFileWeavingParams =
  projectRoot :: path
  threadSourcePath :: path
  relPathFromSource :: path
  currentThreadName :: string
  threadNameToWeave :: string

definition handleFileConflictOwnedByOther ::
  "processFileWeavingParams \<Rightarrow> string \<Rightarrow> path \<Rightarrow> world \<Rightarrow> (error + bool) \<times> world" where
  "handleFileConflictOwnedByOther params ownerThreadName relDestPathForDisplay w =
     (if threadNameToWeave params = [] then
        (case promptUserForOverwrite (WantsToOverwrite (currentThreadName params))
                (say (CurrentlyOwnedBy relDestPathForDisplay ownerThreadName) w) of
           (None, w1) \<Rightarrow> (Inl (ReadInputFailed relDestPathForDisplay), w1)
         | (Some choice, w1) \<Rightarrow>
             if choice = ''yes'' then
               (Inr True,
                (say (TakingOwnership (currentThreadName params) relDestPathForDisplay) w1)
                  \<lparr>mem := removeFileFromThreadManifest (mem w1) ownerThreadName relDestPathForDisplay\<rparr>)
             else
               (Inr False, say (SkippingRetainsOwnership relDestPathForDisplay ownerThreadName) w1))
      else if threadNameToWeave params = currentThreadName params then
        (Inr True,
         (say (SpecificallyWovenTakingOwnership (currentThreadName params) relDestPathForDisplay)
            (say (CurrentlyOwnedBy relDestPathForDisplay ownerThreadName) w))
           \<lparr>mem := removeFileFromThreadManifest (mem w) ownerThreadName relDestPathForDisplay\<rparr>)
      else
        (Inr False,
         say (SkippingOwnedByOther relDestPathForDisplay ownerThreadName
                (threadNameToWeave params) (currentThreadName params)) w))"

definition handleFileConflictUnowned ::
  "processFileWeavingParams \<Rightarrow> path \<Rightarrow> world \<Rightarrow> (error + bool) \<times> world" where
  "handleFileConflictUnowned params relDestPathForDisplay w =
     (if threadNameToWeave params = [] then
        (case promptUserForOverwrite (WantsToOverwrite (currentThreadName params))
                (say (ExistsNotOwned relDestPathForDisplay) w) of
           (None, w1) \<Rightarrow> (Inl (ReadInputFailed relDestPathForDisplay), w1)
         | (Some choice, w1) \<Rightarrow>
             if choice = ''yes'' then
               (Inr True, say (TakingOwnership (currentThreadName params) relDestPathForDisplay) w1)
             else
               (Inr False, say (SkippingRemainsUnmanaged relDestPathForDisplay) w1))
      else if threadNameToWeave params = currentThreadName params then
        (Inr True,
         say (SpecificallyWovenTakingUnowned relDestPathForDisplay (currentThreadName params)) w)
      else
        (Inr False,
         say (SkippingUnowned relDestPathForDisplay
                (threadNameToWeave params) (currentThreadName params)) w))"

definition decideFileWeavingAction ::
  "processFileWeavingParams \<Rightarrow> path \<Rightarrow> path \<Rightarrow> world \<Rightarrow> (error + bool) \<times> world" where
  "decideFileWeavingAction params destPathInProject relDestPathForDisplay w =
     (case Stat (disk w) destPathInProject of
        StatFailed \<Rightarrow> (Inl (StatDestinationFailed destPathInProject), w)
      | StatOK info \<Rightarrow>
          (case IsFileOwned (mem w) destPathInProject (projectRoot params) of
             (ownerThreadName, isOwned) \<Rightarrow>
               if isOwned \<and> ownerThreadName \<noteq> currentThreadName params then
                 handleFileConflictOwnedByOther params ownerThreadName relDestPathForDisplay w
               else if \<not> isOwned then
                 handleFileConflictUnowned params relDestPathForDisplay w
               else
                 (Inr True, say (Reapplying relDestPathForDisplay (currentThreadName params)) w))
      | StatNotExist \<Rightarrow>
          (case MkdirAll (disk w) (Dir destPathInProject) of
             None \<Rightarrow> (Inl (MkdirFailed destPathInProject), w)
           | Some disk1 \<Rightarrow>
               (Inr True,
                say (CreatingNewFile relDestPathForDisplay (currentThreadName params))
                  (w\<lparr>disk := disk1\<rparr>))))"

definition handleFileWeavingOperation ::
  "processFileWeavingParams \<Rightarrow> world \<Rightarrow> (error + bool) \<times> world" where
  "handleFileWeavingOperation params w =
     (let pathInThreadSource = Join [threadSourcePath params, relPathFromSource params];
          destPathInProject = Join [projectRoot params, relPathFromSource params]
      in case Stat (disk w) pathInThreadSource of
           StatNotExist \<Rightarrow>
             (Inr False, say (SourceFileNotFound pathInThreadSource (currentThreadName params)) w)
         | StatFailed \<Rightarrow>
             (Inr False, say (ErrorStatingSourceFile pathInThreadSource (currentThreadName params)) w)
         | StatOK Directory \<Rightarrow>
             (Inr False, say (SourceIsDirectory pathInThreadSource) w)
         | StatOK sourceInfo \<Rightarrow>
             (let relDestPathForDisplay =
                    ToSlash (case Rel (projectRoot params) destPathInProject of
                               None \<Rightarrow> [] | Some r \<Rightarrow> r)
              in case decideFileWeavingAction params destPathInProject relDestPathForDisplay w of
                   (Inl err, w1) \<Rightarrow> (Inl err, w1)
                 | (Inr shouldWrite, w1) \<Rightarrow>
                     if shouldWrite then
                       (case ReadFile (disk w1) pathInThreadSource of
                          None \<Rightarrow> (Inl (ReadSourceFailed pathInThreadSource), w1)
                        | Some data \<Rightarrow>
                            (case WriteFile (disk w1) destPathInProject data (perm sourceInfo) of
                               None \<Rightarrow> (Inl (WriteFailed destPathInProject), w1)
                             | Some disk2 \<Rightarrow>
                                 (Inr True,
                                  w1\<lparr>disk := disk2, writeLog := writeLog w1 @ [destPathInProject]\<rparr>)))
                     else (Inr False, w1)))"

definition determineThreadSourcePath :: "Thread \<Rightarrow> path \<Rightarrow> path" where
  "determineThreadSourcePath thread root =
     (if HasPrefix (Source thread) ''project:''
      then Join [root, TrimPrefix (Source thread) ''project:'', ''_thread'']
      else Join [root, ''.loom'', Name thread, ''_thread''])"

text \<open>Go's \<open>m[k] = append(m[k], xs...)\<close> on a map of string lists.\<close>

definition appendAt :: "string \<Rightarrow> string list \<Rightarrow> files_map \<Rightarrow> files_map" where
  "appendAt k xs m =
     AList.update k ((case map_of m k of None \<Rightarrow> [] | Some ys \<Rightarrow> ys) @ xs) m"

text \<open>The two loop bodies of \<open>collectFilesToProcessForWeaving\<close>.\<close>

fun replayOwned :: "files_map \<Rightarrow> files_map \<Rightarrow> files_map" where
  "replayOwned [] filesToProcess = filesToProcess"
| "replayOwned ((dir, filesInDir) # rest) filesToProcess =
     replayOwned rest (appendAt (normalizeDir dir) filesInDir filesToProcess)"

fun walkSource :: "path \<Rightarrow> (path \<times> node) list \<Rightarrow> files_map \<Rightarrow> error + files_map" where
  "walkSource src [] filesToProcess = Inr filesToProcess"
| "walkSource src ((p, info) # rest) filesToProcess =
     (if info = Directory then walkSource src rest filesToProcess
      else (case Rel src p of
              None \<Rightarrow> Inl (RelFailed p src)
            | Some relPathFromSourceDir \<Rightarrow>
                (case Split relPathFromSourceDir of
                   (destDirRelToProject, fileName) \<Rightarrow>
                     walkSource src rest
                       (appendAt (normalizeDir destDirRelToProject) [fileName] filesToProcess))))"

definition collectFilesToProcessForWeaving ::
  "Thread \<Rightarrow> path \<Rightarrow> path \<Rightarrow> string \<Rightarrow> world \<Rightarrow> (error + files_map) \<times> world" where
  "collectFilesToProcessForWeaving thread src root target w =
     (if target \<noteq> [] \<and> target = Name thread then
        (let w1 = say (WeavingSpecificThread (Name thread)) w
         in if length (Files thread) = 0
            then (Inr [], say (ThreadOwnsNoFiles (Name thread)) w1)
            else (Inr (replayOwned (Files thread) []), w1))
      else if target = [] then
        (case Walk (disk w) src of
           None \<Rightarrow> (Inl (WalkFailed (Name thread) src), w)
         | Some visited \<Rightarrow>
             (case walkSource src visited [] of
                Inl err \<Rightarrow> (Inl (WalkFailed (Name thread) src), w)
              | Inr filesToProcess \<Rightarrow> (Inr filesToProcess, w)))
      else (Inr [], w))"

text \<open>
  The two nested loops of \<open>processWeavingForThread\<close>, with the map of the files written so
  far. The first error ends both.
\<close>

fun weaveFilesInDir ::
  "processFileWeavingParams \<Rightarrow> string \<Rightarrow> string list \<Rightarrow> files_map \<Rightarrow> world
     \<Rightarrow> (error + files_map) \<times> world" where
  "weaveFilesInDir base dirToProcess [] written w = (Inr written, w)"
| "weaveFilesInDir base dirToProcess (fileToProcess # rest) written w =
     (case handleFileWeavingOperation
             (base\<lparr>relPathFromSource := Join [dirToProcess, fileToProcess]\<rparr>) w of
        (Inl opErr, w1) \<Rightarrow> (Inl opErr, w1)
      | (Inr fileWasWritten, w1) \<Rightarrow>
          weaveFilesInDir base dirToProcess rest
            (if fileWasWritten then appendAt dirToProcess [fileToProcess] written else written) w1)"

fun weaveFiles ::
  "processFileWeavingParams \<Rightarrow> files_map \<Rightarrow> files_map \<Rightarrow> world
     \<Rightarrow> (error + files_map) \<times> world" where
  "weaveFiles base [] written w = (Inr written, w)"
| "weaveFiles base ((dirToProcess, filesInDirToProcess) # rest) written w =
     (case weaveFilesInDir base dirToProcess filesInDirToProcess written w of
        (Inl opErr, w1) \<Rightarrow> (Inl opErr, w1)
      | (Inr written1, w1) \<Rightarrow> weaveFiles base rest written1 w1)"

definition setThreadFiles :: "nat \<Rightarrow> files_map \<Rightarrow> LoomConfig \<Rightarrow> LoomConfig" where
  "setThreadFiles i files lc = lc\<lparr>Threads := (Threads lc)[i := (Threads lc ! i)\<lparr>Files := files\<rparr>]\<rparr>"

text \<open>
  \<open>processWeavingForThread\<close> for the thread at index \<open>i\<close> of the manifest in memory (the Go
  code holds a pointer to that element).
\<close>

definition processWeavingForThread :: "nat \<Rightarrow> path \<Rightarrow> string \<Rightarrow> world \<Rightarrow> (error + unit) \<times> world" where
  "processWeavingForThread i root target w =
     (let thread = Threads (mem w) ! i
      in if target \<noteq> [] \<and> Name thread \<noteq> target then (Inr (), w)
         else
           (let src = determineThreadSourcePath thread root
            in if Stat (disk w) src = StatNotExist
               then (Inr (), say (ThreadSourceDirNotFound (Name thread) src) w)
               else
                 (case collectFilesToProcessForWeaving thread src root target
                         (say (WeavingThreadFrom (Name thread) src) w) of
                    (Inl err, w1) \<Rightarrow> (Inr (), say (FailedToCollectFiles (Name thread)) w1)
                  | (Inr filesToProcess, w1) \<Rightarrow>
                      (case weaveFiles
                              \<lparr>projectRoot = root, threadSourcePath = src, relPathFromSource = [],
                               currentThreadName = Name thread, threadNameToWeave = target\<rparr>
                              filesToProcess [] w1 of
                         (Inl opErr, w2) \<Rightarrow> (Inl opErr, w2)
                       | (Inr written, w2) \<Rightarrow>
                           (Inr (), w2\<lparr>mem := setThreadFiles i written (mem w2)\<rparr>)))))"

text \<open>The loop of \<open>Weave\<close> over the thread indices still to visit.\<close>

fun weaveThreads :: "string \<Rightarrow> path \<Rightarrow> nat list \<Rightarrow> bool \<Rightarrow> world \<Rightarrow> (error + bool) \<times> world" where
  "weaveThreads target root [] found w = (Inr found, w)"
| "weaveThreads target root (i # rest) found w =
     (let name = Name (Threads (mem w) ! i);
          found1 = (if target \<noteq> [] \<and> name = target then True else found)
      in case processWeavingForThread i root target w of
           (Inl err, w1) \<Rightarrow> (Inl (WeavingThreadFailed name err), w1)
         | (Inr u, w1) \<Rightarrow>
             if target \<noteq> [] \<and> name = target then (Inr found1, w1)
             else weaveThreads target root rest found1 w1)"

text \<open>
  \<open>Weave\<close>: the manifest is loaded, the threads are processed in order, and the manifest is
  saved only when nothing failed.
\<close>

definition Weave :: "string \<Rightarrow> path \<Rightarrow> world \<Rightarrow> (error + unit) \<times> world" where
  "Weave target root w =
     (case manifest w of
        None \<Rightarrow> (Inl ReadManifestFailed, w)
      | Some loomConfig \<Rightarrow>
          (case weaveThreads target root [0 ..< length (Threads loomConfig)] False
                  (w\<lparr>mem := loomConfig\<rparr>) of
             (Inl err, w1) \<Rightarrow> (Inl err, w1)
           | (Inr found, w1) \<Rightarrow>
               if target \<noteq> [] \<and> \<not> found then (Inl (ThreadNotInManifest target), w1)
               else (Inr (), say WeaveCompleted (w1\<lparr>manifest := Some (mem w1)\<rparr>))))"

section \<open>The add command\<close>

definition parseAddArgs :: "string \<Rightarrow> error + (string \<times> string)" where
  "parseAddArgs fullThreadArg =
     (if fullThreadArg = [] then Inl ThreadNameRequired
      else if CHR ''/'' \<in> set fullThreadArg then
        (let targetStoreName = takeWhile (\<lambda>c. c \<noteq> CHR ''/'') fullThreadArg;
             threadName = drop (length targetStoreName + 1) fullThreadArg
         in if targetStoreName = [] \<or> threadName = []
            then Inl (InvalidStoreThreadFormat fullThreadArg)
            else Inr (targetStoreName, threadName))
      else Inr ([], fullThreadArg))"

definition findThreadInProjectStore ::
  "path \<Rightarrow> string \<Rightarrow> world \<Rightarrow> error + (path \<times> string \<times> bool)" where
  "findThreadInProjectStore root threadName w =
     (let projectThreadPath = Join [root, ''.loom'', threadName, ''_thread'']
      in case Stat (disk w) projectThreadPath of
           StatOK info \<Rightarrow> Inr (projectThreadPath, ''project:.loom/'' @ threadName, True)
         | StatNotExist \<Rightarrow> Inr ([], [], False)
         | StatFailed \<Rightarrow> Inl (StatProjectStoreFailed projectThreadPath))"

fun findThreadInLocalStores ::
  "string \<Rightarrow> string \<Rightarrow> Store list \<Rightarrow> world \<Rightarrow> error + (path \<times> string \<times> bool)" where
  "findThreadInLocalStores targetStoreName threadName [] w = Inr ([], [], False)"
| "findThreadInLocalStores targetStoreName threadName (store # rest) w =
     (if targetStoreName \<noteq> [] \<and> StoreName store \<noteq> targetStoreName
      then findThreadInLocalStores targetStoreName threadName rest w
      else if StoreType store = ''local'' then
        (let potentialThreadPath = Join [StorePath store, threadName, ''_thread'']
         in case Stat (disk w) potentialThreadPath of
              StatOK fileInfo \<Rightarrow>
                if fileInfo = Directory then Inr (potentialThreadPath, StoreName store, True)
                else Inl (MalformedThread potentialThreadPath (StoreName store))
            | StatFailed \<Rightarrow>
                Inl (AccessThreadFailed threadName (StoreName store) potentialThreadPath)
            | StatNotExist \<Rightarrow> findThreadInLocalStores targetStoreName threadName rest w)
      else findThreadInLocalStores targetStoreName threadName rest w)"

definition searchLocalStores ::
  "string \<Rightarrow> string \<Rightarrow> world \<Rightarrow> error + (path \<times> string)" where
  "searchLocalStores targetStoreName threadName w =
     (case globalStores w of
        None \<Rightarrow> Inl LoadGlobalConfigFailed
      | Some stores \<Rightarrow>
          (case findThreadInLocalStores targetStoreName threadName stores w of
             Inl err \<Rightarrow> Inl err
           | Inr (threadPath, threadSource, foundInLocal) \<Rightarrow>
               if foundInLocal then Inr (threadPath, threadSource)
               else if targetStoreName \<noteq> [] then
                 (if list_ex (\<lambda>store. StoreName store = targetStoreName) stores
                  then Inl (ThreadNotInStore threadName targetStoreName)
                  else Inl (StoreNotConfigured targetStoreName))
               else Inl (ThreadNotFound threadName)))"

text \<open>
  \<open>handleThreadSearch\<close>: the project store first, unless a store is named, then the
  configured local stores.
\<close>

definition handleThreadSearch ::
  "path \<Rightarrow> string \<Rightarrow> string \<Rightarrow> world \<Rightarrow> error + (path \<times> string)" where
  "handleThreadSearch root targetStoreName threadName w =
     (if targetStoreName = [] then
        (case findThreadInProjectStore root threadName w of
           Inl err \<Rightarrow> Inl err
         | Inr (threadPath, threadSource, foundInProject) \<Rightarrow>
             if foundInProject then Inr (threadPath, threadSource)
             else searchLocalStores targetStoreName threadName w)
      else searchLocalStores targetStoreName threadName w)"

fun sourceOfThread :: "Thread list \<Rightarrow> string \<Rightarrow> string" where
  "sourceOfThread [] ownerThreadName = []"
| "sourceOfThread (t # ts) ownerThreadName =
     (if Name t = ownerThreadName then Source t else sourceOfThread ts ownerThreadName)"

definition handleExistingFileConflict ::
  "path \<Rightarrow> path \<Rightarrow> string \<Rightarrow> world \<Rightarrow> (error + bool) \<times> world" where
  "handleExistingFileConflict destPath baseProjectPath displayCurrentThreadSource w =
     (case Stat (disk w) destPath of
        StatNotExist \<Rightarrow> (Inr True, w)
      | StatFailed \<Rightarrow> (Inl (StatDestinationFailed destPath), w)
      | StatOK info \<Rightarrow>
          (case IsFileOwned (mem w) destPath baseProjectPath of
             (ownerThreadNameFromConfig, isOwned) \<Rightarrow>
               (case Rel baseProjectPath destPath of
                  None \<Rightarrow> (Inl (RelFailed destPath baseProjectPath), w)
                | Some relDestPath \<Rightarrow>
                    if isOwned then
                      (let found = sourceOfThread (Threads (mem w)) ownerThreadNameFromConfig;
                           ownerThreadSourceFromConfig =
                             (if found = [] then ownerThreadNameFromConfig else found)
                       in if ownerThreadSourceFromConfig = displayCurrentThreadSource
                          then (Inr True, w)
                          else
                            (case promptUserForOverwrite
                                    (TakeOwnershipAndOverwrite displayCurrentThreadSource relDestPath)
                                    (say (CurrentlyOwnedBy relDestPath ownerThreadSourceFromConfig) w) of
                               (None, w1) \<Rightarrow> (Inl (ReadInputFailed relDestPath), w1)
                             | (Some choice, w1) \<Rightarrow>
                                 if choice = ''yes''
                                 then (Inr True,
                                       say (TakingOwnership displayCurrentThreadSource relDestPath) w1)
                                 else (Inr False,
                                       say (SkippingRetainsOwnership relDestPath
                                              ownerThreadSourceFromConfig) w1)))
                    else
                      (case promptUserForOverwrite
                              (TakeOwnershipAndOverwrite displayCurrentThreadSource relDestPath)
                              (say (ExistsNotOwned relDestPath) w) of
                         (None, w1) \<Rightarrow> (Inl (ReadInputFailed relDestPath), w1)
                       | (Some choice, w1) \<Rightarrow>
                           if choice = ''yes''
                           then (Inr True,
                                 say (TakingOwnership displayCurrentThreadSource relDestPath) w1)
                           else (Inr False, say (SkippingRemainsUnmanaged relDestPath) w1)))))"

text \<open>
  \<open>_processFileCopy\<close>: the result is the directory key and the file name of the file that
  was copied, or two empty strings when the file was skipped.
\<close>

definition processFileCopy ::
  "path \<Rightarrow> path \<Rightarrow> path \<Rightarrow> string \<Rightarrow> string \<Rightarrow> string \<Rightarrow> node \<Rightarrow> world
     \<Rightarrow> (error + (string \<times> string)) \<times> world" where
  "processFileCopy srcPath destPath baseProjectPath currentThread displayCurrentThreadSource
       srcFileName srcFileInfo w =
     (let destFileDir = Dir destPath
      in case MkdirAll (disk w) destFileDir of
           None \<Rightarrow> (Inl (MkdirFailed destPath), w)
         | Some disk1 \<Rightarrow>
             (case handleExistingFileConflict destPath baseProjectPath displayCurrentThreadSource
                     (w\<lparr>disk := disk1\<rparr>) of
                (Inl conflictErr, w1) \<Rightarrow> (Inl conflictErr, w1)
              | (Inr shouldOverwrite, w1) \<Rightarrow>
                  if \<not> shouldOverwrite then (Inr ([], []), w1)
                  else
                    (case ReadFile (disk w1) srcPath of
                       None \<Rightarrow> (Inl (ReadSourceFailed srcPath), w1)
                     | Some data \<Rightarrow>
                         (case WriteFile (disk w1) destPath data (perm srcFileInfo) of
                            None \<Rightarrow> (Inl (WriteFailed destPath), w1)
                          | Some disk2 \<Rightarrow>
                              (let w2 = w1\<lparr>disk := disk2, writeLog := writeLog w1 @ [destPath]\<rparr>
                               in if destFileDir \<noteq> baseProjectPath then
                                    (case Rel baseProjectPath destFileDir of
                                       None \<Rightarrow> (Inl (RelFailed destFileDir baseProjectPath), w2)
                                     | Some relPathCurrent \<Rightarrow>
                                         (Inr (if relPathCurrent = ''.'' then ''./''
                                               else ToSlash relPathCurrent @ ''/'', srcFileName),
                                          w2))
                                  else (Inr (''./'', srcFileName), w2))))))"

text \<open>The merge loop of \<open>copyDirWithBasePath\<close> for the files of a sub-directory.\<close>

fun mergeInto :: "files_map \<Rightarrow> files_map \<Rightarrow> files_map" where
  "mergeInto [] filesByDir = filesByDir"
| "mergeInto ((dir, files) # rest) filesByDir = mergeInto rest (appendAt dir files filesByDir)"

text \<open>
  \<open>copyDirWithBasePath\<close> and the loop over the entries of its directory. The Go function
  descends as deep as the directories nest; the model carries the depth it may still
  descend and fails beyond it.
\<close>

fun copyDirWithBasePath ::
      "nat \<Rightarrow> path \<Rightarrow> path \<Rightarrow> path \<Rightarrow> string \<Rightarrow> string \<Rightarrow> world
         \<Rightarrow> (error + files_map) \<times> world"
  and copyEntries ::
      "nat \<Rightarrow> path \<Rightarrow> path \<Rightarrow> path \<Rightarrow> string \<Rightarrow> string \<Rightarrow> (string \<times> node) list \<Rightarrow> files_map
         \<Rightarrow> world \<Rightarrow> (error + files_map) \<times> world" where
  "copyDirWithBasePath 0 src dest base cur source w = (Inl (CopyTooDeep src), w)"
| "copyDirWithBasePath (Suc depth) src dest base cur source w =
     (case ReadDir (disk w) src of
        None \<Rightarrow> (Inl (ReadDirFailed src), w)
      | Some entries \<Rightarrow> copyEntries depth src dest base cur source entries [] w)"
| "copyEntries depth src dest base cur source [] filesByDir w = (Inr filesByDir, w)"
| "copyEntries depth src dest base cur source ((name, info) # rest) filesByDir w =
     (let srcPath = Join [src, name];
          destPath = Join [dest, name]
      in if info = Inaccessible then (Inl (FileInfoFailed srcPath), w)
         else if info = Directory then
           (case MkdirAll (disk w) destPath of
              None \<Rightarrow> (Inl (MkdirFailed destPath), w)
            | Some disk1 \<Rightarrow>
                (case copyDirWithBasePath depth srcPath destPath base cur source (w\<lparr>disk := disk1\<rparr>) of
                   (Inl err, w1) \<Rightarrow> (Inl err, w1)
                 | (Inr subFilesByDir, w1) \<Rightarrow>
                     copyEntries depth src dest base cur source rest
                       (mergeInto subFilesByDir filesByDir) w1))
         else
           (case processFileCopy srcPath destPath base cur source name info w of
              (Inl err, w1) \<Rightarrow> (Inl err, w1)
            | (Inr (relDir, fileName), w1) \<Rightarrow>
                copyEntries depth src dest base cur source rest
                  (if fileName \<noteq> [] then appendAt relDir [fileName] filesByDir else filesByDir) w1))"

definition copyDir ::
  "path \<Rightarrow> path \<Rightarrow> string \<Rightarrow> string \<Rightarrow> world \<Rightarrow> (error + files_map) \<times> world" where
  "copyDir src dest currentThread displayCurrentThreadSource w =
     (case MkdirAll (disk w) dest of
        None \<Rightarrow> (Inl (MkdirFailed dest), w)
      | Some disk1 \<Rightarrow>
          copyDirWithBasePath (Suc (length disk1)) src dest dest currentThread
            displayCurrentThreadSource (w\<lparr>disk := disk1\<rparr>))"

text \<open>
  \<open>removeFileFromOtherThreads\<close>: every thread with another name loses the file under
  exactly the given directory key.
\<close>

definition removeFileFromOtherThread :: "string \<Rightarrow> string \<Rightarrow> string \<Rightarrow> Thread \<Rightarrow> Thread" where
  "removeFileFromOtherThread currentThread dirToRemove fileToRemove otherThread =
     (if Name otherThread = currentThread then otherThread
      else (case map_of (Files otherThread) dirToRemove of
              None \<Rightarrow> otherThread
            | Some filesInDir \<Rightarrow>
                (let updatedFilesInDir = filter (\<lambda>existingFile. existingFile \<noteq> fileToRemove) filesInDir;
                     fileWasRemoved = (fileToRemove \<in> set filesInDir)
                 in if fileWasRemoved then
                      (if length updatedFilesInDir = 0
                       then otherThread\<lparr>Files := AList.delete dirToRemove (Files otherThread)\<rparr>
                       else otherThread\<lparr>Files :=
                              AList.update dirToRemove updatedFilesInDir (Files otherThread)\<rparr>)
                    else otherThread)))"

definition removeFileFromOtherThreads :: "LoomConfig \<Rightarrow> string \<Rightarrow> string \<Rightarrow> string \<Rightarrow> LoomConfig" where
  "removeFileFromOtherThreads config currentThread dirToRemove fileToRemove =
     config\<lparr>Threads := map (removeFileFromOtherThread currentThread dirToRemove fileToRemove)
                         (Threads config)\<rparr>"

text \<open>
  \<open>updateLoomConfig\<close> of the add command: the copied files are taken from the other threads;
  an existing thread of that name gets the new source and, directory key by directory
  key, the copied files; otherwise a new thread is appended.
\<close>

fun removeAddedFromOthers :: "files_map \<Rightarrow> string \<Rightarrow> LoomConfig \<Rightarrow> LoomConfig" where
  "removeAddedFromOthers [] threadName config = config"
| "removeAddedFromOthers ((dir, files) # rest) threadName config =
     removeAddedFromOthers rest threadName
       (fold (\<lambda>file c. removeFileFromOtherThreads c threadName dir file) files config)"

fun putDirs :: "files_map \<Rightarrow> files_map \<Rightarrow> files_map" where
  "putDirs [] threadFiles = threadFiles"
| "putDirs ((dir, files) # rest) threadFiles = putDirs rest (AList.update dir files threadFiles)"

fun updateExisting :: "string \<Rightarrow> string \<Rightarrow> files_map \<Rightarrow> Thread list \<Rightarrow> Thread list option" where
  "updateExisting threadName source filesByDir [] = None"
| "updateExisting threadName source filesByDir (th # rest) =
     (if Name th = threadName
      then Some (th\<lparr>Source := source, Files := putDirs filesByDir (Files th)\<rparr> # rest)
      else map_option (\<lambda>rest1. th # rest1) (updateExisting threadName source filesByDir rest))"

definition updateLoomConfig :: "string \<Rightarrow> string \<Rightarrow> files_map \<Rightarrow> world \<Rightarrow> world" where
  "updateLoomConfig threadName source filesByDir w =
     (let config = removeAddedFromOthers filesByDir threadName (mem w);
          config1 =
            (case updateExisting threadName source filesByDir (Threads config) of
               Some threads \<Rightarrow> config\<lparr>Threads := threads\<rparr>
             | None \<Rightarrow>
                 config\<lparr>Threads := Threads config @
                   [\<lparr>Name = threadName, Source = source, Files = filesByDir\<rparr>]\<rparr>)
      in w\<lparr>mem := config1, manifest := Some config1\<rparr>)"

text \<open>
  The action of the add command. A missing \<open>loom.yaml\<close> stands for the empty manifest of
  version 1.
\<close>

definition Add :: "string \<Rightarrow> path \<Rightarrow> world \<Rightarrow> (error + unit) \<times> world" where
  "Add fullThreadArg root w =
     (case parseAddArgs fullThreadArg of
        Inl err \<Rightarrow> (Inl err, w)
      | Inr (targetStoreName, threadName) \<Rightarrow>
          (let w0 = w\<lparr>mem := (case manifest w of
                                None \<Rightarrow> \<lparr>Version = ''1'', Threads = []\<rparr>
                              | Some loomConfig \<Rightarrow> loomConfig)\<rparr>
           in case handleThreadSearch root targetStoreName threadName w0 of
                Inl err \<Rightarrow> (Inl err, w0)
              | Inr (threadPath, threadSource) \<Rightarrow>
                  if threadPath = [] then (Inl (ThreadPathEmpty fullThreadArg), w0)
                  else
                    (case copyDir threadPath root threadName threadSource w0 of
                       (Inl err, w1) \<Rightarrow> (Inl err, w1)
                     | (Inr filesByDir, w1) \<Rightarrow>
                         (Inr (),
                          say (ThreadAdded fullThreadArg threadSource)
                            (updateLoomConfig threadName threadSource filesByDir w1)))))"

section \<open>Notions of the specification\<close>

text \<open>
  The same manifest with every directory key written with its trailing slash: the two
  ways of storing a key that \<open>IsFileOwned\<close> is meant to treat alike.
\<close>

definition withTrailingSlash :: "string \<Rightarrow> string" where
  "withTrailingSlash dir = (if HasSuffix dir ''/'' then dir else dir @ ''/'')"

definition slashKeys :: "LoomConfig \<Rightarrow> LoomConfig" where
  "slashKeys lc =
     lc\<lparr>Threads := map (\<lambda>t. t\<lparr>Files := map (\<lambda>(dir, files). (withTrailingSlash dir, files)) (Files t)\<rparr>)
                     (Threads lc)\<rparr>"

text \<open>
  The (directory key, file name) pairs of a files map, and the normalized pairs a thread
  owns. A manifest is exclusive when no two threads, taken by position, own a common
  normalized pair.
\<close>

definition entries :: "files_map \<Rightarrow> (string \<times> string) list" where
  "entries m = concat (map (\<lambda>(dir, files). map (Pair dir) files) m)"

definition ownedPairs :: "Thread \<Rightarrow> (string \<times> string) list" where
  "ownedPairs t = map (\<lambda>(dir, file). (normalizeDir dir, file)) (entries (Files t))"

fun exclusiveThreads :: "Thread list \<Rightarrow> bool" where
  "exclusiveThreads [] = True"
| "exclusiveThreads (t # rest) =
     (list_all (\<lambda>u. list_all (\<lambda>pair. pair \<notin> set (ownedPairs u)) (ownedPairs t)) rest
      \<and> exclusiveThreads rest)"

definition exclusive :: "LoomConfig \<Rightarrow> bool" where
  "exclusive lc = exclusiveThreads (Threads lc)"

text \<open>
  The source directory of the thread at index \<open>i\<close> does not exist, and the world after the
  warning that \<open>processWeavingForThread\<close> prints for it.
\<close>

definition sourceMissing :: "path \<Rightarrow> world \<Rightarrow> nat \<Rightarrow> bool" where
  "sourceMissing root w i =
     (Stat (disk w) (determineThreadSourcePath (Threads (mem w) ! i) root) = StatNotExist)"

definition skipped :: "path \<Rightarrow> world \<Rightarrow> nat \<Rightarrow> world" where
  "skipped root w i =
     say (ThreadSourceDirNotFound (Name (Threads (mem w) ! i))
            (determineThreadSourcePath (Threads (mem w) ! i) root)) w"

subsection \<open>Example projects\<close>

text \<open>
  Thread \<open>t1\<close> was added from a local store and owns \<open>a.txt\<close>, which has since been deleted
  from the project; thread \<open>t2\<close> of the project store provides \<open>a.txt\<close> as well.
\<close>

definition orphanManifest :: LoomConfig where
  "orphanManifest =
     \<lparr>Version = ''1'', Threads =
        [\<lparr>Name = ''t1'', Source = ''myStore'', Files = [(''./'', [''a.txt''])]\<rparr>,
         \<lparr>Name = ''t2'', Source = ''project:.loom/t2'', Files = []\<rparr>]\<rparr>"

definition orphanWorld :: world where
  "orphanWorld =
     \<lparr>mem = \<lparr>Version = [], Threads = []\<rparr>,
      disk = [(''/proj'', Directory), (''/proj/.loom'', Directory),
              (''/proj/.loom/t2'', Directory), (''/proj/.loom/t2/_thread'', Directory),
              (''/proj/.loom/t2/_thread/a.txt'', File ''from t2'' 420)],
      manifest = Some orphanManifest,
      globalStores = Some [],
      stdin = [], stdout = [], writeLog = []\<rparr>"

text \<open>
  One local store \<open>myStore\<close> holds the threads \<open>t1\<close> and \<open>t2\<close>, which both provide \<open>a.txt\<close>;
  \<open>t1\<close> has been added and owns \<open>a.txt\<close>; the user will answer no.
\<close>

definition sameStoreWorld :: world where
  "sameStoreWorld =
     \<lparr>mem = \<lparr>Version = [], Threads = []\<rparr>,
      disk = [(''/proj'', Directory), (''/proj/a.txt'', File ''from t1'' 420),
              (''/stores/my'', Directory),
              (''/stores/my/t1'', Directory), (''/stores/my/t1/_thread'', Directory),
              (''/stores/my/t1/_thread/a.txt'', File ''from t1'' 420),
              (''/stores/my/t2'', Directory), (''/stores/my/t2/_thread'', Directory),
              (''/stores/my/t2/_thread/a.txt'', File ''from t2'' 420)],
      manifest = Some \<lparr>Version = ''1'', Threads =
        [\<lparr>Name = ''t1'', Source = ''myStore'', Files = [(''./'', [''a.txt''])]\<rparr>]\<rparr>,
      globalStores = Some [\<lparr>StoreName = ''myStore'', StoreType = ''local'', StorePath = ''/stores/my''\<rparr>],
      stdin = [''no''], stdout = [], writeLog = []\<rparr>"

text \<open>
  Thread \<open>t1\<close> was added from the store \<open>storeA\<close> and owns \<open>a.txt\<close>; it is added again, this
  time from \<open>storeB\<close>; the user will answer no.
\<close>

definition otherStoreWorld :: world where
  "otherStoreWorld =
     \<lparr>mem = \<lparr>Version = [], Threads = []\<rparr>,
      disk = [(''/proj'', Directory), (''/proj/a.txt'', File ''old'' 420),
              (''/stores/b'', Directory),
              (''/stores/b/t1'', Directory), (''/stores/b/t1/_thread'', Directory),
              (''/stores/b/t1/_thread/a.txt'', File ''new'' 420)],
      manifest = Some \<lparr>Version = ''1'', Threads =
        [\<lparr>Name = ''t1'', Source = ''storeA'', Files = [(''./'', [''a.txt''])]\<rparr>]\<rparr>,
      globalStores = Some [\<lparr>StoreName = ''storeA'', StoreType = ''local'', StorePath = ''/stores/a''\<rparr>,
                           \<lparr>StoreName = ''storeB'', StoreType = ''local'', StorePath = ''/stores/b''\<rparr>],
      stdin = [''no''], stdout = [], writeLog = []\<rparr>"

text \<open>
  The thread \<open>badThread\<close> has a regular file where its \<open>_thread\<close> directory should be, once
  in the project store and once in the local store \<open>myStore\<close>.
\<close>

definition badThreadWorld :: world where
  "badThreadWorld =
     \<lparr>mem = \<lparr>Version = [], Threads = []\<rparr>,
      disk = [(''/proj'', Directory), (''/proj/.loom'', Directory),
              (''/proj/.loom/badThread'', Directory),
              (''/proj/.loom/badThread/_thread'', File ''not a directory'' 420),
              (''/stores/my'', Directory), (''/stores/my/badThread'', Directory),
              (''/stores/my/badThread/_thread'', File ''not a directory'' 420)],
      manifest = Some \<lparr>Version = ''1'', Threads = []\<rparr>,
      globalStores = Some [\<lparr>StoreName = ''myStore'', StoreType = ''local'', StorePath = ''/stores/my''\<rparr>],
      stdin = [], stdout = [], writeLog = []\<rparr>"





text \<open>One thread after the update that \<open>removeFileFromThreadManifest\<close> applies to the owner.\<close>

definition withoutFile :: "string \<Rightarrow> string \<Rightarrow> Thread \<Rightarrow> Thread" where
  "withoutFile normalizedDir file t =
     (case map_of (Files t) normalizedDir of
        None \<Rightarrow> t
      | Some filesInDir \<Rightarrow>
          (let updatedFilesInDir = filter (\<lambda>f. f \<noteq> file) filesInDir
           in if length updatedFilesInDir > 0
              then t\<lparr>Files := AList.update normalizedDir updatedFilesInDir (Files t)\<rparr>
              else t\<lparr>Files := AList.delete normalizedDir (Files t)\<rparr>))"




text \<open>
  Thread \<open>t1\<close> of the store \<open>myStore\<close> owns \<open>file1.txt\<close> and \<open>sub/file2.txt\<close>; the store has
  since dropped \<open>sub/file2.txt\<close> from the thread, and \<open>t1\<close> is added again.
\<close>

definition reAddWorld :: world where
  "reAddWorld =
     \<lparr>mem = \<lparr>Version = [], Threads = []\<rparr>,
      disk = [(''/proj'', Directory), (''/proj/file1.txt'', File ''one'' 420),
              (''/proj/sub'', Directory), (''/proj/sub/file2.txt'', File ''two'' 420),
              (''/stores/my'', Directory),
              (''/stores/my/t1'', Directory), (''/stores/my/t1/_thread'', Directory),
              (''/stores/my/t1/_thread/file1.txt'', File ''one again'' 420)],
      manifest = Some \<lparr>Version = ''1'', Threads =
        [\<lparr>Name = ''t1'', Source = ''myStore'',
          Files = [(''./'', [''file1.txt'']), (''sub/'', [''file2.txt''])]\<rparr>]\<rparr>,
      globalStores = Some [\<lparr>StoreName = ''myStore'', StoreType = ''local'', StorePath = ''/stores/my''\<rparr>],
      stdin = [], stdout = [], writeLog = []\<rparr>"




definition untouched :: "path set \<Rightarrow> filesystem \<Rightarrow> filesystem \<Rightarrow> bool" where
  "untouched D d d' =
     (\<forall>p. p \<notin> D \<longrightarrow> map_of d' p = map_of d p \<or> (map_of d p = None \<and> map_of d' p = Some Directory))"


text \<open>
  The manifest \<open>lc'\<close> differs from \<open>lc\<close> only in that threads not named \<open>cur\<close> may have lost
  entries among \<open>K\<close>.
\<close>

definition othersKeep :: "string \<Rightarrow> (string \<times> string) set \<Rightarrow> LoomConfig \<Rightarrow> LoomConfig \<Rightarrow> bool" where
  "othersKeep cur K lc lc' =
     (length (Threads lc') = length (Threads lc)
      \<and> (\<forall>j < length (Threads lc).
            Name (Threads lc' ! j) = Name (Threads lc ! j)
            \<and> (Name (Threads lc ! j) = cur \<longrightarrow> Threads lc' ! j = Threads lc ! j)
            \<and> set (entries (Files (Threads lc' ! j))) \<subseteq> set (entries (Files (Threads lc ! j)))
            \<and> set (entries (Files (Threads lc ! j))) - K \<subseteq> set (entries (Files (Threads lc' ! j)))))"


section \<open>Ownership lookup and the trailing slash of a key\<close>

lemma normalizedDirOfKey_withTrailingSlash:
  "normalizedDirOfKey (withTrailingSlash dir) = normalizedDirOfKey dir"
  by (auto simp: normalizedDirOfKey_def withTrailingSlash_def HasSuffix_def)

lemma dirOwns_withTrailingSlash:
  "dirOwns relPath (withTrailingSlash dir, files) = dirOwns relPath (dir, files)"
  by (simp add: dirOwns_def normalizedDirOfKey_withTrailingSlash)

lemma threadOwns_slash:
  "threadOwns relPath (t\<lparr>Files := map (\<lambda>(dir, files). (withTrailingSlash dir, files)) (Files t)\<rparr>)
     = threadOwns relPath t"
proof -
  have "list_ex (dirOwns relPath) (map (\<lambda>(dir, files). (withTrailingSlash dir, files)) fm)
          = list_ex (dirOwns relPath) fm" for fm
    by (induction fm) (auto simp: dirOwns_withTrailingSlash)
  then show ?thesis by (simp add: threadOwns_def)
qed

lemma ownerAmong_slash:
  "ownerAmong relPath (map (\<lambda>t. t\<lparr>Files := map (\<lambda>(dir, files). (withTrailingSlash dir, files)) (Files t)\<rparr>) ts)
     = ownerAmong relPath ts"
  by (induction ts) (simp_all add: threadOwns_slash)

text \<open>
  Claim C10. \<open>IsFileOwned\<close> gives the same owner and the same flag whether the directory
  keys of the manifest are stored with or without their trailing slash: a key without
  one gets it appended before the owned path is rebuilt and compared.
\<close>

theorem IsFileOwned_trailing_slash:
  "IsFileOwned (slashKeys lc) filePath root = IsFileOwned lc filePath root"
  by (simp add: IsFileOwned_def slashKeys_def ownerAmong_slash split: option.splits)

theorem IsFileOwned_trailing_slash_witness:
  "IsFileOwned (slashKeys \<lparr>Version = ''1'', Threads =
        [\<lparr>Name = ''t1'', Source = ''s'', Files = [(''sub'', [''a.txt''])]\<rparr>]\<rparr>)
       ''/proj/sub/a.txt'' ''/proj'' = (''t1'', True)
   \<and> IsFileOwned \<lparr>Version = ''1'', Threads =
        [\<lparr>Name = ''t1'', Source = ''s'', Files = [(''sub'', [''a.txt''])]\<rparr>]\<rparr>
       ''/proj/sub/a.txt'' ''/proj'' = (''t1'', True)"
  using IsFileOwned_trailing_slash [of "\<lparr>Version = ''1'', Threads =
        [\<lparr>Name = ''t1'', Source = ''s'', Files = [(''sub'', [''a.txt''])]\<rparr>]\<rparr>"
        "''/proj/sub/a.txt''" "''/proj''"]
  by code_simp

section \<open>Enumeration for a targeted weave\<close>

lemma entries_Nil [simp]: "entries [] = []"
  by (simp add: entries_def)

lemma entries_Cons [simp]: "entries ((dir, files) # m) = map (Pair dir) files @ entries m"
  by (simp add: entries_def)

lemma set_entries_appendAt:
  "set (entries (appendAt k xs m)) = set (entries m) \<union> Pair k ` set xs"
proof (induction m)
  case Nil
  then show ?case by (simp add: appendAt_def)
next
  case (Cons e m)
  obtain d fs where e: "e = (d, fs)" by (cases e)
  show ?case
  proof (cases "d = k")
    case True
    then show ?thesis using e by (auto simp: appendAt_def)
  next
    case False
    then show ?thesis using e Cons by (auto simp: appendAt_def)
  qed
qed

lemma set_entries_replayOwned:
  "set (entries (replayOwned fm acc))
     = set (entries acc) \<union> (\<lambda>(d, f). (normalizeDir d, f)) ` set (entries fm)"
proof (induction fm arbitrary: acc)
  case Nil
  then show ?case by simp
next
  case (Cons e fm)
  obtain d fs where e: "e = (d, fs)" by (cases e)
  show ?case
    unfolding e by (simp add: Cons set_entries_appendAt image_Un image_image) blast
qed

text \<open>
  Claim C7. For a targeted weave of a thread, the candidate files are computed from the
  thread's \<open>Files\<close> in the manifest alone: they are its recorded (directory, file) pairs
  with the directory key normalized, whatever the file table holds, and the file table
  is not changed. A file of the source tree that the manifest does not record is no
  candidate.
\<close>

theorem targeted_enumeration_replays_manifest:
  assumes "target \<noteq> []" and "target = Name thread"
  shows "fst (collectFilesToProcessForWeaving thread src root target w)
           = Inr (replayOwned (Files thread) [])
       \<and> set (entries (replayOwned (Files thread) []))
           = (\<lambda>(dir, file). (normalizeDir dir, file)) ` set (entries (Files thread))
       \<and> fst (collectFilesToProcessForWeaving thread src root target (w\<lparr>disk := otherDisk\<rparr>))
           = fst (collectFilesToProcessForWeaving thread src root target w)
       \<and> disk (snd (collectFilesToProcessForWeaving thread src root target w)) = disk w"
proof -
  have "Files thread = [] \<Longrightarrow> replayOwned (Files thread) [] = []"
    by simp
  then show ?thesis
    using assms
    by (auto simp: collectFilesToProcessForWeaving_def Let_def say_def set_entries_replayOwned)
qed

theorem targeted_enumeration_replays_manifest_witness:
  "''t1'' \<noteq> []
   \<and> ''t1'' = Name \<lparr>Name = ''t1'', Source = ''myStore'', Files = [(''sub'', [''a.txt''])]\<rparr>
   \<and> fst (collectFilesToProcessForWeaving
            \<lparr>Name = ''t1'', Source = ''myStore'', Files = [(''sub'', [''a.txt''])]\<rparr>
            ''/proj/.loom/t1/_thread'' ''/proj'' ''t1'' orphanWorld) = Inr [(''sub/'', [''a.txt''])]
   \<and> fst (collectFilesToProcessForWeaving
            \<lparr>Name = ''t1'', Source = ''myStore'', Files = [(''sub'', [''a.txt''])]\<rparr>
            ''/proj/.loom/t1/_thread'' ''/proj'' ''t1'' (orphanWorld\<lparr>disk := []\<rparr>))
         = Inr [(''sub/'', [''a.txt''])]"
proof -
  have h1: "''t1'' \<noteq> []" by simp
  have h2: "''t1'' = Name \<lparr>Name = ''t1'', Source = ''myStore'', Files = [(''sub'', [''a.txt''])]\<rparr>"
    by simp
  have v: "replayOwned (Files \<lparr>Name = ''t1'', Source = ''myStore'', Files = [(''sub'', [''a.txt''])]\<rparr>) []
             = [(''sub/'', [''a.txt''])]"
    by code_simp
  show ?thesis
    using targeted_enumeration_replays_manifest [OF h1 h2,
        where src = "''/proj/.loom/t1/_thread''" and root = "''/proj''" and w = orphanWorld
          and otherDisk = "[]"]
    unfolding v by simp
qed

section \<open>A thread whose source directory is missing\<close>

lemma processWeavingForThread_missing_source:
  assumes "Stat (disk w) (determineThreadSourcePath (Threads (mem w) ! i) root) = StatNotExist"
      and "target = [] \<or> target = Name (Threads (mem w) ! i)"
  shows "processWeavingForThread i root target w
           = (Inr (), say (ThreadSourceDirNotFound (Name (Threads (mem w) ! i))
                            (determineThreadSourcePath (Threads (mem w) ! i) root)) w)"
  using assms by (auto simp: processWeavingForThread_def Let_def)

lemma processWeavingForThread_not_target:
  assumes "target \<noteq> []" "Name (Threads (mem w) ! i) \<noteq> target"
  shows "processWeavingForThread i root target w = (Inr (), w)"
  using assms by (simp add: processWeavingForThread_def Let_def)

lemma weaveThreads_reaches_target:
  assumes "target \<noteq> []"
      and "\<forall>j \<in> set js. Name (Threads (mem w) ! j) \<noteq> target"
      and "Name (Threads (mem w) ! i) = target"
      and "Stat (disk w) (determineThreadSourcePath (Threads (mem w) ! i) root) = StatNotExist"
  shows "weaveThreads target root (js @ i # rest) found w
           = (Inr True, say (ThreadSourceDirNotFound target
                            (determineThreadSourcePath (Threads (mem w) ! i) root)) w)"
  using assms
proof (induction js arbitrary: found)
  case Nil
  then show ?case
    by (simp add: processWeavingForThread_missing_source Let_def)
next
  case (Cons j js)
  then show ?case
    by (simp add: processWeavingForThread_not_target Let_def)
qed

lemma weaveThreads_all_missing:
  assumes "\<forall>j \<in> set js. Stat (disk w) (determineThreadSourcePath (Threads (mem w) ! j) root) = StatNotExist"
  shows "fst (weaveThreads [] root js found w) = Inr found
       \<and> mem (snd (weaveThreads [] root js found w)) = mem w
       \<and> disk (snd (weaveThreads [] root js found w)) = disk w"
  using assms
proof (induction js arbitrary: w)
  case Nil
  then show ?case by simp
next
  case (Cons j js)
  let ?w1 = "say (ThreadSourceDirNotFound (Name (Threads (mem w) ! j))
                    (determineThreadSourcePath (Threads (mem w) ! j) root)) w"
  have step: "processWeavingForThread j root [] w = (Inr (), ?w1)"
    using Cons.prems by (simp add: processWeavingForThread_missing_source)
  have same: "mem ?w1 = mem w" "disk ?w1 = disk w"
    by (simp_all add: say_def)
  have "\<forall>k \<in> set js. Stat (disk ?w1) (determineThreadSourcePath (Threads (mem ?w1) ! k) root) = StatNotExist"
    using Cons.prems same by simp
  from Cons.IH [OF this] show ?case
    using step same by (simp add: Let_def)
qed

lemma upt_split_at: "i < n \<Longrightarrow> [0 ..< n] = [0 ..< i] @ i # [Suc i ..< n]"
proof -
  assume "i < n"
  then have "[0 ..< i + (n - i)] = [0 ..< i] @ [i ..< i + (n - i)]"
    by (intro upt_add_eq_append) simp
  then show ?thesis
    using \<open>i < n\<close> by (simp add: upt_conv_Cons)
qed

text \<open>
  Claim C9. When the source directory of a thread does not exist, weaving that thread
  (in a weave of all threads, or as the target) is not an error: the thread is skipped
  with the warning, the manifest in memory and the file table stay as they were, and
  the loop of \<open>Weave\<close> goes on with the next thread. A targeted weave of such a thread
  succeeds and saves the manifest unchanged; so does a weave of all threads when no
  thread has its source directory.
\<close>

theorem weave_skips_thread_without_source:
  "(sourceMissing root w i \<and> (target = [] \<or> target = Name (Threads (mem w) ! i)) \<longrightarrow>
      processWeavingForThread i root target w = (Inr (), skipped root w i)
      \<and> mem (skipped root w i) = mem w
      \<and> disk (skipped root w i) = disk w
      \<and> weaveThreads target root (i # rest) found w
          = (if target = [] then weaveThreads target root rest found (skipped root w i)
             else (Inr True, skipped root w i)))
   \<and> (manifest w = Some lc \<and> target \<noteq> [] \<and> i < length (Threads lc)
        \<and> Name (Threads lc ! i) = target \<and> (\<forall>j < i. Name (Threads lc ! j) \<noteq> target)
        \<and> sourceMissing root (w\<lparr>mem := lc\<rparr>) i \<longrightarrow>
      Weave target root w
        = (Inr (), say WeaveCompleted ((skipped root (w\<lparr>mem := lc\<rparr>) i)\<lparr>manifest := Some lc\<rparr>)))
   \<and> (manifest w = Some lc \<and> (\<forall>j < length (Threads lc). sourceMissing root (w\<lparr>mem := lc\<rparr>) j) \<longrightarrow>
      fst (Weave [] root w) = Inr ()
      \<and> manifest (snd (Weave [] root w)) = Some lc
      \<and> disk (snd (Weave [] root w)) = disk w)"
proof (intro conjI impI)
  assume a: "sourceMissing root w i \<and> (target = [] \<or> target = Name (Threads (mem w) ! i))"
  then show "processWeavingForThread i root target w = (Inr (), skipped root w i)"
    by (simp add: sourceMissing_def skipped_def processWeavingForThread_missing_source)
  then show "weaveThreads target root (i # rest) found w
          = (if target = [] then weaveThreads target root rest found (skipped root w i)
             else (Inr True, skipped root w i))"
    using a by (auto simp: Let_def)
next
  show "mem (skipped root w i) = mem w" "disk (skipped root w i) = disk w"
    by (simp_all add: skipped_def say_def)
next
  assume a: "manifest w = Some lc \<and> target \<noteq> [] \<and> i < length (Threads lc)
        \<and> Name (Threads lc ! i) = target \<and> (\<forall>j < i. Name (Threads lc ! j) \<noteq> target)
        \<and> sourceMissing root (w\<lparr>mem := lc\<rparr>) i"
  let ?w0 = "w\<lparr>mem := lc\<rparr>"
  have "weaveThreads target root ([0 ..< i] @ i # [Suc i ..< length (Threads lc)]) False ?w0
          = (Inr True, say (ThreadSourceDirNotFound target
                              (determineThreadSourcePath (Threads (mem ?w0) ! i) root)) ?w0)"
    using a by (intro weaveThreads_reaches_target) (auto simp: sourceMissing_def)
  then have "weaveThreads target root [0 ..< length (Threads lc)] False ?w0
          = (Inr True, skipped root ?w0 i)"
    using a upt_split_at [of i "length (Threads lc)"] by (simp add: skipped_def)
  then show "Weave target root w
        = (Inr (), say WeaveCompleted ((skipped root ?w0 i)\<lparr>manifest := Some lc\<rparr>))"
    using a by (simp add: Weave_def skipped_def say_def)
next
  assume a: "manifest w = Some lc \<and> (\<forall>j < length (Threads lc). sourceMissing root (w\<lparr>mem := lc\<rparr>) j)"
  let ?w0 = "w\<lparr>mem := lc\<rparr>"
  let ?r = "weaveThreads [] root [0 ..< length (Threads lc)] False ?w0"
  have "\<forall>j \<in> set [0 ..< length (Threads lc)].
          Stat (disk ?w0) (determineThreadSourcePath (Threads (mem ?w0) ! j) root) = StatNotExist"
    using a by (simp add: sourceMissing_def)
  from weaveThreads_all_missing [OF this, of False]
  have r: "fst ?r = Inr False" "mem (snd ?r) = lc" "disk (snd ?r) = disk w"
    by simp_all
  obtain w1 where w1: "?r = (Inr False, w1)"
    using r(1) by (cases ?r) auto
  then have "mem w1 = lc" "disk w1 = disk w" using r by simp_all
  then show "fst (Weave [] root w) = Inr ()" "manifest (snd (Weave [] root w)) = Some lc"
      "disk (snd (Weave [] root w)) = disk w"
    using a w1 by (simp_all add: Weave_def say_def)
qed

theorem weave_skips_thread_without_source_witness:
  "sourceMissing ''/proj'' (orphanWorld\<lparr>mem := orphanManifest\<rparr>) 0
   \<and> manifest orphanWorld = Some orphanManifest
   \<and> Name (Threads orphanManifest ! 0) = ''t1''
   \<and> Weave ''t1'' ''/proj'' orphanWorld
       = (Inr (), orphanWorld\<lparr>mem := orphanManifest,
                    stdout := [ThreadSourceDirNotFound ''t1'' ''/proj/.loom/t1/_thread'', WeaveCompleted]\<rparr>)"
proof -
  have h1: "sourceMissing ''/proj'' (orphanWorld\<lparr>mem := orphanManifest\<rparr>) 0" by code_simp
  have h2: "manifest orphanWorld = Some orphanManifest" by code_simp
  have h3: "Name (Threads orphanManifest ! 0) = ''t1''" by code_simp
  have h4: "0 < length (Threads orphanManifest)" by code_simp
  have v: "say WeaveCompleted ((skipped ''/proj'' (orphanWorld\<lparr>mem := orphanManifest\<rparr>) 0)
                                  \<lparr>manifest := Some orphanManifest\<rparr>)
             = orphanWorld\<lparr>mem := orphanManifest,
                    stdout := [ThreadSourceDirNotFound ''t1'' ''/proj/.loom/t1/_thread'', WeaveCompleted]\<rparr>"
    by code_simp
  show ?thesis
    using weave_skips_thread_without_source [where root = "''/proj''" and w = orphanWorld
        and i = 0 and target = "''t1''" and lc = orphanManifest] h1 h2 h3 h4 v
    by simp
qed

section \<open>Runs of the commands on the example projects\<close>

text \<open>
  Claim C1 (exclusive ownership after add, weave and remove) at the project where \<open>t1\<close>
  owns the deleted \<open>a.txt\<close>: the manifest is exclusive before the weave of all threads;
  \<open>t1\<close> is skipped because it has no source directory in the project, \<open>t2\<close> finds no
  \<open>a.txt\<close> on disk and writes it without any look at the manifest; the weave succeeds
  and saves a manifest in which both threads own \<open>a.txt\<close>.
\<close>

theorem weave_all_leaves_two_owners:
  "exclusive orphanManifest
   \<and> fst (Weave [] ''/proj'' orphanWorld) = Inr ()
   \<and> manifest (snd (Weave [] ''/proj'' orphanWorld))
       = Some \<lparr>Version = ''1'', Threads =
           [\<lparr>Name = ''t1'', Source = ''myStore'', Files = [(''./'', [''a.txt''])]\<rparr>,
            \<lparr>Name = ''t2'', Source = ''project:.loom/t2'', Files = [(''./'', [''a.txt''])]\<rparr>]\<rparr>
   \<and> \<not> exclusive \<lparr>Version = ''1'', Threads =
           [\<lparr>Name = ''t1'', Source = ''myStore'', Files = [(''./'', [''a.txt''])]\<rparr>,
            \<lparr>Name = ''t2'', Source = ''project:.loom/t2'', Files = [(''./'', [''a.txt''])]\<rparr>]\<rparr>"
  by code_simp

text \<open>
  Claim C5 (a file owned by the current thread is rewritten without a prompt, in every
  mode) at the project where \<open>t1\<close>, recorded with source \<open>storeA\<close>, is added again from
  \<open>storeB\<close>: \<open>a.txt\<close> exists and is owned by \<open>t1\<close>, the thread being added, yet the add
  command compares the recorded source with the new one, asks the user, reads the
  answer no, and does not write the file.
\<close>

theorem add_prompts_for_own_file:
  "IsFileOwned \<lparr>Version = ''1'', Threads =
        [\<lparr>Name = ''t1'', Source = ''storeA'', Files = [(''./'', [''a.txt''])]\<rparr>]\<rparr>
      ''/proj/a.txt'' ''/proj'' = (''t1'', True)
   \<and> parseAddArgs ''storeB/t1'' = Inr (''storeB'', ''t1'')
   \<and> fst (Add ''storeB/t1'' ''/proj'' otherStoreWorld) = Inr ()
   \<and> stdout (snd (Add ''storeB/t1'' ''/proj'' otherStoreWorld))
       = [CurrentlyOwnedBy ''a.txt'' ''storeA'',
          Ask (TakeOwnershipAndOverwrite ''storeB'' ''a.txt''),
          SkippingRetainsOwnership ''a.txt'' ''storeA'',
          ThreadAdded ''storeB/t1'' ''storeB'']
   \<and> stdin otherStoreWorld = [''no'']
   \<and> stdin (snd (Add ''storeB/t1'' ''/proj'' otherStoreWorld)) = []
   \<and> writeLog (snd (Add ''storeB/t1'' ''/proj'' otherStoreWorld)) = []
   \<and> map_of (disk (snd (Add ''storeB/t1'' ''/proj'' otherStoreWorld))) ''/proj/a.txt''
       = Some (File ''old'' 420)"
  by code_simp

text \<open>
  Claim C6 (adding \<open>t2\<close> with the answer no leaves \<open>a.txt\<close> and its owner \<open>t1\<close> alone) at
  the project where \<open>t1\<close> and \<open>t2\<close> come from the same local store: the recorded source
  of the owner equals the source of \<open>t2\<close>, so the add command takes \<open>a.txt\<close> for a file
  of the thread being added; the answer is never read, \<open>a.txt\<close> is overwritten with the
  bytes of \<open>t2\<close>, \<open>t1\<close> loses it and \<open>t2\<close> owns it.
\<close>

theorem add_from_same_store_overwrites:
  "manifest sameStoreWorld = Some \<lparr>Version = ''1'', Threads =
        [\<lparr>Name = ''t1'', Source = ''myStore'', Files = [(''./'', [''a.txt''])]\<rparr>]\<rparr>
   \<and> map_of (disk sameStoreWorld) ''/proj/a.txt'' = Some (File ''from t1'' 420)
   \<and> map_of (disk sameStoreWorld) ''/stores/my/t2/_thread/a.txt'' = Some (File ''from t2'' 420)
   \<and> stdin sameStoreWorld = [''no'']
   \<and> fst (Add ''t2'' ''/proj'' sameStoreWorld) = Inr ()
   \<and> stdin (snd (Add ''t2'' ''/proj'' sameStoreWorld)) = [''no'']
   \<and> stdout (snd (Add ''t2'' ''/proj'' sameStoreWorld)) = [ThreadAdded ''t2'' ''myStore'']
   \<and> map_of (disk (snd (Add ''t2'' ''/proj'' sameStoreWorld))) ''/proj/a.txt''
       = Some (File ''from t2'' 420)
   \<and> manifest (snd (Add ''t2'' ''/proj'' sameStoreWorld))
       = Some \<lparr>Version = ''1'', Threads =
           [\<lparr>Name = ''t1'', Source = ''myStore'', Files = []\<rparr>,
            \<lparr>Name = ''t2'', Source = ''myStore'', Files = [(''./'', [''a.txt''])]\<rparr>]\<rparr>"
  by code_simp

text \<open>
  Claim C8 (a regular file in place of a thread's source directory makes the resolution
  fail with the malformed-thread error) at the project whose own store holds such a
  thread: the search in the project store only asks whether the path exists, and the
  resolution succeeds with that path; the same entry in a local store is refused with
  the error that names path and store. The add command then fails when it reads the
  directory, with another error, and has written no file.
\<close>

theorem project_store_accepts_file_as_thread:
  "Stat (disk badThreadWorld) ''/proj/.loom/badThread/_thread'' = StatOK (File ''not a directory'' 420)
   \<and> handleThreadSearch ''/proj'' [] ''badThread'' badThreadWorld
       = Inr (''/proj/.loom/badThread/_thread'', ''project:.loom/badThread'')
   \<and> handleThreadSearch ''/proj'' ''myStore'' ''badThread'' badThreadWorld
       = Inl (MalformedThread ''/stores/my/badThread/_thread'' ''myStore'')
   \<and> fst (Add ''badThread'' ''/proj'' badThreadWorld)
       = Inl (ReadDirFailed ''/proj/.loom/badThread/_thread'')
   \<and> writeLog (snd (Add ''badThread'' ''/proj'' badThreadWorld)) = []
   \<and> disk (snd (Add ''badThread'' ''/proj'' badThreadWorld)) = disk badThreadWorld"
  by code_simp

section \<open>Paths of well-formed manifest entries\<close>

lemma splitSlash_not_Nil [simp]: "splitSlash s \<noteq> []"
  by (induction s) (auto split: list.splits)











section \<open>Revoking a file from its owner\<close>






lemma removeFromOwner_Cons:
  "removeFromOwner (t # ts) owner nd file =
     (if Name t = owner then withoutFile nd file t # ts
      else t # removeFromOwner ts owner nd file)"
  by (simp add: withoutFile_def Let_def split: option.splits)

lemma Name_withoutFile [simp]: "Name (withoutFile nd file t) = Name t"
  by (simp add: withoutFile_def Let_def split: option.splits)







section \<open>A targeted weave and a file that already exists\<close>




section \<open>What a weave leaves untouched\<close>

lemma untouched_refl [simp]: "untouched D d d"
  by (simp add: untouched_def)








lemma say_frame [simp]:
  "mem (say m w) = mem w" "disk (say m w) = disk w" "writeLog (say m w) = writeLog w"
  "manifest (say m w) = manifest w" "stdin (say m w) = stdin w"
  by (simp_all add: say_def)






lemma length_removeFromOwner [simp]: "length (removeFromOwner ts owner nd fname) = length ts"
  by (induction ts) (auto simp: removeFromOwner_Cons simp del: removeFromOwner.simps(2))


lemma othersKeep_refl [simp]: "othersKeep cur K lc lc"
  by (simp add: othersKeep_def)


















lemma length_setThreadFiles [simp]:
  "length (Threads (setThreadFiles i files lc)) = length (Threads lc)"
  by (simp add: setThreadFiles_def)







end
